theory Spec2Isabelle
  imports Main
begin

section \<open>The model interface of attalos: \<open>AttalosModel\<close>\<close>

text \<open>
  The source is \<^verbatim>\<open>attalos/imgtxt_algorithms/approaches/base.py\<close>, a Python 2 module
  (it uses \<^verbatim>\<open>xrange\<close>, and \<^verbatim>\<open>/\<close> on two ints is floor division). It holds one class,
  \<^verbatim>\<open>AttalosModel\<close>, whose methods either raise \<^verbatim>\<open>NotImplementedError\<close> or hand their
  arguments to objects the module does not define: a TensorFlow session, a TensorFlow
  saver and a dataset.

  Python values are dynamically typed; the embedding is polymorphic instead. A type
  variable stands for each kind of value the class only passes around:
  \<^item> \<open>'s\<close> a session, \<open>'t\<close> a tensor handle or fetch, \<open>'d\<close> a feed dictionary,
    \<open>'v\<close> what a run gives back, \<open>'sv\<close> a saver, \<open>'p\<close> a path;
  \<^item> \<open>'ds\<close> a dataset, \<open>'data\<close> one batch of it, \<open>'a\<close> a matrix of image features.
\<close>

subsection \<open>Exceptions\<close>

text \<open>
  Every exception the class can raise itself is a constructor; \<open>ExternalError\<close> is
  whatever a collaborator raises. An attribute or key error carries the missing name.
\<close>

datatype error =
    NotImplementedError
  | ZeroDivisionError
  | AttributeError string
  | KeyError string
  | ExternalError string

text \<open>
  A call on an external object returns normally (\<open>Inr\<close>) or raises (\<open>Inl\<close>), and
  leaves the object in a new state.
\<close>

type_synonym ('r, 'st) outcome = "(error + 'r) \<times> 'st"

subsection \<open>The external collaborators\<close>

text \<open>
  None of these is defined by the repository, so each is a parameter of the model.
  \<open>sess_run\<close> is \<^verbatim>\<open>sess.run(fetches, feed_dict=...)\<close>; its feed argument is \<open>None\<close>
  when the caller gives none (the default of the keyword). \<open>train_Saver\<close> is
  \<^verbatim>\<open>tf.train.Saver()\<close>, \<open>initialize_all_variables\<close> is \<^verbatim>\<open>tf.initialize_all_variables()\<close>,
  \<open>saver_save\<close> and \<open>saver_restore\<close> are the two methods of a saver.
\<close>

record ('s, 't, 'd, 'v, 'sv, 'p) runtime =
  sess_run :: "'s \<Rightarrow> 't \<Rightarrow> 'd option \<Rightarrow> ('v, 's) outcome"
  train_Saver :: "error + 'sv"
  initialize_all_variables :: "error + 't"
  saver_save :: "'sv \<Rightarrow> 's \<Rightarrow> 'p \<Rightarrow> ('v, 's) outcome"
  saver_restore :: "'sv \<Rightarrow> 's \<Rightarrow> 'p \<Rightarrow> ('v, 's) outcome"

text \<open>
  A dataset object: the attribute \<^verbatim>\<open>num_images\<close> (an integer, as Python's unbounded
  \<open>int\<close>) and the method \<^verbatim>\<open>get_next_batch(batch_size)\<close>, which advances the dataset.
\<close>

record ('ds, 'data) dataset_ops =
  num_images :: "'ds \<Rightarrow> int"
  get_next_batch :: "'ds \<Rightarrow> int \<Rightarrow> ('data, 'ds) outcome"

subsection \<open>The instance\<close>

text \<open>
  The attributes the class reads on \<^verbatim>\<open>self\<close>. An attribute that was never assigned is
  \<open>None\<close>; reading it raises \<^verbatim>\<open>AttributeError\<close>. \<open>model_info\<close> is a dictionary from
  strings to tensor handles.
\<close>

record ('sv, 't) attalos_model =
  saver :: "'sv option"
  model_info :: "(string \<rightharpoonup> 't) option"

definition new_object :: "('sv, 't) attalos_model" where
  "new_object = \<lparr>saver = None, model_info = None\<rparr>"

text \<open>
  \<^verbatim>\<open>
  def __init__(self):
      self.saver = tf.train.Saver()
  \<close>
\<close>

definition init ::
  "('s, 't, 'd, 'v, 'sv, 'p) runtime \<Rightarrow> ('sv, 't) attalos_model \<Rightarrow> error + ('sv, 't) attalos_model"
where
  "init tf self =
     (case train_Saver tf of
        Inl e \<Rightarrow> Inl e
      | Inr sv \<Rightarrow> Inr (self\<lparr>saver := Some sv\<rparr>))"

subsection \<open>The hooks a subclass overrides\<close>

text \<open>
  \<^verbatim>\<open>
  def prep_fit(self, data):                       raise NotImplementedError()
  def prep_predict(self, dataset, cross_eval=False): raise NotImplementedError()
  def post_predict(self, predict_fetches, cross_eval=False): return predict_fetches
  def get_training_loss(self, fit_fetches):       raise NotImplementedError()
  \<close>
  The result type of a raising hook is free: it never returns.
\<close>

definition prep_fit :: "('sv, 't) attalos_model \<Rightarrow> 'data \<Rightarrow> error + 'r" where
  "prep_fit self data = Inl NotImplementedError"

definition prep_predict :: "('sv, 't) attalos_model \<Rightarrow> 'ds \<Rightarrow> bool \<Rightarrow> error + 'r" where
  "prep_predict self dataset cross_eval = Inl NotImplementedError"

definition post_predict :: "('sv, 't) attalos_model \<Rightarrow> 'v \<Rightarrow> bool \<Rightarrow> error + 'v" where
  "post_predict self predict_fetches cross_eval = Inr predict_fetches"

definition get_training_loss :: "('sv, 't) attalos_model \<Rightarrow> 'v \<Rightarrow> error + 'r" where
  "get_training_loss self fit_fetches = Inl NotImplementedError"

subsection \<open>The forwarding methods\<close>

text \<open>
  \<^verbatim>\<open>
  def initialize_model(self, sess):
      sess.run(tf.initialize_all_variables())
  def save(self, sess, model_output_path):
      self.saver.save(sess, model_output_path)
  def load(self, sess, model_input_path):
      self.saver.restore(sess, model_input_path)
  \<close>
  Each discards what the call returns and returns \<^verbatim>\<open>None\<close> (here \<open>()\<close>).
\<close>

definition initialize_model ::
  "('s, 't, 'd, 'v, 'sv, 'p) runtime \<Rightarrow> ('sv, 't) attalos_model \<Rightarrow> 's \<Rightarrow> (unit, 's) outcome"
where
  "initialize_model tf self sess =
     (case initialize_all_variables tf of
        Inl e \<Rightarrow> (Inl e, sess)
      | Inr init_op \<Rightarrow>
          (case sess_run tf sess init_op None of
             (Inl e, sess') \<Rightarrow> (Inl e, sess')
           | (Inr _, sess') \<Rightarrow> (Inr (), sess')))"

definition save ::
  "('s, 't, 'd, 'v, 'sv, 'p) runtime \<Rightarrow> ('sv, 't) attalos_model \<Rightarrow> 's \<Rightarrow> 'p \<Rightarrow> (unit, 's) outcome"
where
  "save tf self sess model_output_path =
     (case saver self of
        None \<Rightarrow> (Inl (AttributeError ''saver''), sess)
      | Some sv \<Rightarrow>
          (case saver_save tf sv sess model_output_path of
             (Inl e, sess') \<Rightarrow> (Inl e, sess')
           | (Inr _, sess') \<Rightarrow> (Inr (), sess')))"

definition load ::
  "('s, 't, 'd, 'v, 'sv, 'p) runtime \<Rightarrow> ('sv, 't) attalos_model \<Rightarrow> 's \<Rightarrow> 'p \<Rightarrow> (unit, 's) outcome"
where
  "load tf self sess model_input_path =
     (case saver self of
        None \<Rightarrow> (Inl (AttributeError ''saver''), sess)
      | Some sv \<Rightarrow>
          (case saver_restore tf sv sess model_input_path of
             (Inl e, sess') \<Rightarrow> (Inl e, sess')
           | (Inr _, sess') \<Rightarrow> (Inr (), sess')))"

text \<open>
  \<^verbatim>\<open>
  def _run(self, sess, fetches, feed_dict):
      vals = sess.run(fetches, feed_dict=feed_dict)
      return vals
  def fit(self, sess, fetches, feed_dict):
      return self._run(sess, fetches, feed_dict)
  def predict(self, sess, fetches, feed_dict):
      return self._run(sess, fetches, feed_dict)
  \<close>
  \<open>private_run\<close> is the source's \<^verbatim>\<open>_run\<close> (an Isabelle name cannot start with an
  underscore). The feed dictionary is any Python value, \<^verbatim>\<open>None\<close> included, hence the
  \<open>option\<close>. An exception of the run leaves \<^verbatim>\<open>_run\<close> before the assignment.
\<close>

definition private_run ::
  "('s, 't, 'd, 'v, 'sv, 'p) runtime \<Rightarrow> ('sv, 't) attalos_model \<Rightarrow> 's \<Rightarrow> 't \<Rightarrow> 'd option
     \<Rightarrow> ('v, 's) outcome"
where
  "private_run tf self sess fetches feed_dict =
     (case sess_run tf sess fetches feed_dict of
        (Inl e, sess') \<Rightarrow> (Inl e, sess')
      | (Inr vals, sess') \<Rightarrow> (Inr vals, sess'))"

definition fit ::
  "('s, 't, 'd, 'v, 'sv, 'p) runtime \<Rightarrow> ('sv, 't) attalos_model \<Rightarrow> 's \<Rightarrow> 't \<Rightarrow> 'd option
     \<Rightarrow> ('v, 's) outcome"
where
  "fit tf self sess fetches feed_dict = private_run tf self sess fetches feed_dict"

definition predict ::
  "('s, 't, 'd, 'v, 'sv, 'p) runtime \<Rightarrow> ('sv, 't) attalos_model \<Rightarrow> 's \<Rightarrow> 't \<Rightarrow> 'd option
     \<Rightarrow> ('v, 's) outcome"
where
  "predict tf self sess fetches feed_dict = private_run tf self sess fetches feed_dict"

text \<open>
  \<^verbatim>\<open>
  def predict_feats(self, sess, image_features):
      return self._run(sess, self.model_info['prediction'],
                       {self.model_info['input']:image_features})
  \<close>
  Python evaluates the arguments left to right: the attribute \<^verbatim>\<open>model_info\<close> and its
  key \<^verbatim>\<open>'prediction'\<close> first, then the key \<^verbatim>\<open>'input'\<close>, then the call. The feed
  dictionary has the one entry; a tensor handle is taken to be hashable, so building
  the dictionary does not raise.
\<close>

definition predict_feats ::
  "('s, 't, 't \<rightharpoonup> 'a, 'v, 'sv, 'p) runtime \<Rightarrow> ('sv, 't) attalos_model \<Rightarrow> 's \<Rightarrow> 'a
     \<Rightarrow> ('v, 's) outcome"
where
  "predict_feats tf self sess image_features =
     (case model_info self of
        None \<Rightarrow> (Inl (AttributeError ''model_info''), sess)
      | Some info \<Rightarrow>
          (case info ''prediction'' of
             None \<Rightarrow> (Inl (KeyError ''prediction''), sess)
           | Some prediction \<Rightarrow>
               (case info ''input'' of
                  None \<Rightarrow> (Inl (KeyError ''input''), sess)
                | Some input \<Rightarrow>
                    private_run tf self sess prediction
                      (Some [input \<mapsto> image_features]))))"

subsection \<open>The batch generator\<close>

text \<open>
  \<^verbatim>\<open>
  def iter_batches(self, dataset, batch_size):
      # TODO batch_size = -1 should yield the entire dataset
      num_batches = int(dataset.num_images / batch_size)
      for cur_batch_num in xrange(num_batches):
          data = dataset.get_next_batch(batch_size)
          fetches, feed_dict = self.prep_fit(data)
          yield fetches, feed_dict
  \<close>
  The body has a \<^verbatim>\<open>yield\<close>, so a call runs none of it: it returns a generator, and
  each \<^verbatim>\<open>next\<close> of the generator runs the body up to the next \<^verbatim>\<open>yield\<close>. One
  \<^verbatim>\<open>next\<close> gives a pair, or ends the generator (\<^verbatim>\<open>StopIteration\<close>), or lets an
  exception of the body out, which ends the generator too.
\<close>

datatype ('t, 'd) signal = Yield 't 'd | StopIteration | Raise error

text \<open>
  Where the body stands: not yet entered, suspended at the \<^verbatim>\<open>yield\<close> with the
  loop's two locals \<^verbatim>\<open>cur_batch_num\<close> and \<^verbatim>\<open>num_batches\<close>, or left for good.
\<close>

datatype frame = Created | Suspended int int | Finished

text \<open>
  The generator keeps the arguments of the call: \<open>gen_prep_fit\<close> is the bound method
  \<^verbatim>\<open>self.prep_fit\<close>, whichever class \<^verbatim>\<open>self\<close> has; on an instance of the base class
  it is \<open>prep_fit self\<close>. An overriding \<^verbatim>\<open>prep_fit\<close> is a function of the batch that
  returns a pair, which the loop unpacks, or raises. The dataset is an object outside the
  generator, so its state is passed to every \<^verbatim>\<open>next\<close> and returned from it.
\<close>

record ('data, 't, 'd) generator =
  gen_prep_fit :: "'data \<Rightarrow> error + 't \<times> 'd"
  gen_batch_size :: int
  gen_frame :: frame

definition iter_batches ::
  "('data \<Rightarrow> error + 't \<times> 'd) \<Rightarrow> int \<Rightarrow> ('data, 't, 'd) generator" where
  "iter_batches self_prep_fit batch_size =
     \<lparr>gen_prep_fit = self_prep_fit, gen_batch_size = batch_size, gen_frame = Created\<rparr>"

text \<open>
  One turn of the \<^verbatim>\<open>for\<close> loop, from the test of \<^verbatim>\<open>xrange\<close> to the \<^verbatim>\<open>yield\<close>.
  \<^verbatim>\<open>xrange(n)\<close> gives \<open>0, 1, ..., n - 1\<close> and nothing when \<open>n \<le> 0\<close>. The integers
  are Python's unbounded ones; that CPython 2 refuses an \<^verbatim>\<open>xrange\<close> bound above the
  platform's \<^verbatim>\<open>sys.maxint\<close> is not modelled.
\<close>

definition for_iteration ::
  "('ds, 'data) dataset_ops \<Rightarrow> ('data, 't, 'd) generator \<Rightarrow> int \<Rightarrow> int \<Rightarrow> 'ds
     \<Rightarrow> (('t, 'd) signal \<times> ('data, 't, 'd) generator) \<times> 'ds" where
  "for_iteration ops g cur_batch_num num_batches dataset =
     (if cur_batch_num < num_batches then
        (case get_next_batch ops dataset (gen_batch_size g) of
           (Inl e, dataset') \<Rightarrow> ((Raise e, g\<lparr>gen_frame := Finished\<rparr>), dataset')
         | (Inr data, dataset') \<Rightarrow>
             (case gen_prep_fit g data of
                Inl e \<Rightarrow> ((Raise e, g\<lparr>gen_frame := Finished\<rparr>), dataset')
              | Inr (fetches, feed_dict) \<Rightarrow>
                  ((Yield fetches feed_dict,
                    g\<lparr>gen_frame := Suspended cur_batch_num num_batches\<rparr>), dataset')))
      else ((StopIteration, g\<lparr>gen_frame := Finished\<rparr>), dataset))"

text \<open>
  \<^verbatim>\<open>next(generator)\<close>. The first one evaluates
  \<^verbatim>\<open>int(dataset.num_images / batch_size)\<close>: on two Python 2 ints \<^verbatim>\<open>/\<close> is floor
  division, which is \<open>div\<close> on \<open>int\<close>, it raises \<^verbatim>\<open>ZeroDivisionError\<close> on a zero
  divisor, and \<^verbatim>\<open>int\<close> of an int is that int.
\<close>

definition gen_next ::
  "('ds, 'data) dataset_ops \<Rightarrow> ('data, 't, 'd) generator \<Rightarrow> 'ds
     \<Rightarrow> (('t, 'd) signal \<times> ('data, 't, 'd) generator) \<times> 'ds" where
  "gen_next ops g dataset =
     (case gen_frame g of
        Created \<Rightarrow>
          (if gen_batch_size g = 0
           then ((Raise ZeroDivisionError, g\<lparr>gen_frame := Finished\<rparr>), dataset)
           else for_iteration ops g 0 (num_images ops dataset div gen_batch_size g) dataset)
      | Suspended cur_batch_num num_batches \<Rightarrow>
          for_iteration ops g (cur_batch_num + 1) num_batches dataset
      | Finished \<Rightarrow> ((StopIteration, g), dataset))"

text \<open>
  A bound on the pairs a generator can still give; it decreases with every pair, which
  is why consuming a generator to its end terminates.
\<close>

definition remaining :: "('ds, 'data) dataset_ops \<Rightarrow> ('data, 't, 'd) generator \<Rightarrow> 'ds \<Rightarrow> nat" where
  "remaining ops g dataset =
     (case gen_frame g of
        Created \<Rightarrow>
          (if gen_batch_size g = 0 then 0
           else nat (num_images ops dataset div gen_batch_size g) + 1)
      | Suspended cur_batch_num num_batches \<Rightarrow> nat (num_batches - cur_batch_num)
      | Finished \<Rightarrow> 0)"

text \<open>
  Consuming the generator to its end, as \<^verbatim>\<open>for fetches, feed_dict in
  model.iter_batches(dataset, batch_size)\<close> does: the pairs in the order they were
  yielded, the exception that ended the iteration if one did, the generator and the
  dataset as they are left.
\<close>

function consume ::
  "('ds, 'data) dataset_ops \<Rightarrow> ('data, 't, 'd) generator \<Rightarrow> 'ds
     \<Rightarrow> (('t \<times> 'd) list \<times> error option) \<times> ('data, 't, 'd) generator \<times> 'ds" where
  "consume ops g dataset =
     (case gen_next ops g dataset of
        ((Yield fetches feed_dict, g'), dataset') \<Rightarrow>
          (case consume ops g' dataset' of
             ((pairs, raised), rest) \<Rightarrow> (((fetches, feed_dict) # pairs, raised), rest))
      | ((StopIteration, g'), dataset') \<Rightarrow> (([], None), g', dataset')
      | ((Raise e, g'), dataset') \<Rightarrow> (([], Some e), g', dataset'))"
  by pat_completeness auto
termination
  by (relation "measure (\<lambda>(ops, g, dataset). remaining ops g dataset)")
     (auto simp: gen_next_def for_iteration_def remaining_def
           split: frame.splits if_splits prod.splits sum.splits)

declare consume.simps [simp del]

text \<open>
  The same loop run in one go, \<open>k\<close> turns of it; \<open>consume_iter_batches\<close> below
  shows that consuming the generator is this.
\<close>

fun drain ::
  "('ds, 'data) dataset_ops \<Rightarrow> ('data \<Rightarrow> error + 't \<times> 'd) \<Rightarrow> int \<Rightarrow> nat \<Rightarrow> 'ds
     \<Rightarrow> (('t \<times> 'd) list \<times> error option) \<times> 'ds" where
  "drain ops self_prep_fit batch_size 0 dataset = (([], None), dataset)"
| "drain ops self_prep_fit batch_size (Suc k) dataset =
     (case get_next_batch ops dataset batch_size of
        (Inl e, dataset') \<Rightarrow> (([], Some e), dataset')
      | (Inr data, dataset') \<Rightarrow>
          (case self_prep_fit data of
             Inl e \<Rightarrow> (([], Some e), dataset')
           | Inr pair \<Rightarrow>
               (case drain ops self_prep_fit batch_size k dataset' of
                  ((pairs, raised), dataset'') \<Rightarrow> ((pair # pairs, raised), dataset''))))"

subsection \<open>What the claims about the generator speak of\<close>

text \<open>
  The claims speak of the \<open>i\<close>-th call of \<^verbatim>\<open>get_next_batch\<close>. \<open>dataset_after\<close> is
  the dataset after \<open>i\<close> successive calls and \<open>retrieved\<close> is what call number
  \<open>i + 1\<close> gives (calls are counted from 0 here, from 1 in the claims).
\<close>

definition dataset_after :: "('ds, 'data) dataset_ops \<Rightarrow> int \<Rightarrow> nat \<Rightarrow> 'ds \<Rightarrow> 'ds" where
  "dataset_after ops batch_size i dataset =
     ((\<lambda>d. snd (get_next_batch ops d batch_size)) ^^ i) dataset"

definition retrieved :: "('ds, 'data) dataset_ops \<Rightarrow> int \<Rightarrow> nat \<Rightarrow> 'ds \<Rightarrow> error + 'data" where
  "retrieved ops batch_size i dataset =
     fst (get_next_batch ops (dataset_after ops batch_size i dataset) batch_size)"

text \<open>
  To count the calls, a dataset can be given a counter: \<open>counting ops\<close> is the
  dataset \<open>ops\<close> with the number of calls of \<^verbatim>\<open>get_next_batch\<close> made so far
  beside it.
\<close>

definition counting :: "('ds, 'data) dataset_ops \<Rightarrow> ('ds \<times> nat, 'data) dataset_ops" where
  "counting ops =
     \<lparr>num_images = (\<lambda>(dataset, calls). num_images ops dataset),
      get_next_batch = (\<lambda>(dataset, calls) batch_size.
        (case get_next_batch ops dataset batch_size of
           (r, dataset') \<Rightarrow> (r, (dataset', Suc calls))))\<rparr>"

subsection \<open>Calls on an instance of the base class\<close>

text \<open>
  The thirteen methods of the class, each with its arguments, and the exception a call
  ends with (\<open>None\<close> when it returns). A call of \<^verbatim>\<open>iter_batches\<close> is taken with the
  consumption of its generator, since the call alone runs nothing. On the base class
  \<^verbatim>\<open>self.prep_fit\<close> is \<open>prep_fit self\<close>.
\<close>

datatype ('s, 't, 'a, 'v, 'p, 'ds, 'data) call =
    Call_init
  | Call_initialize_model 's
  | Call_save 's 'p
  | Call_load 's 'p
  | Call_iter_batches 'ds int
  | Call_run 's 't "('t \<rightharpoonup> 'a) option"
  | Call_fit 's 't "('t \<rightharpoonup> 'a) option"
  | Call_predict_feats 's 'a
  | Call_predict 's 't "('t \<rightharpoonup> 'a) option"
  | Call_prep_fit 'data
  | Call_prep_predict 'ds bool
  | Call_post_predict 'v bool
  | Call_get_training_loss 'v

fun method_name :: "('s, 't, 'a, 'v, 'p, 'ds, 'data) call \<Rightarrow> string" where
  "method_name Call_init = ''__init__''"
| "method_name (Call_initialize_model sess) = ''initialize_model''"
| "method_name (Call_save sess path) = ''save''"
| "method_name (Call_load sess path) = ''load''"
| "method_name (Call_iter_batches dataset batch_size) = ''iter_batches''"
| "method_name (Call_run sess fetches feed_dict) = ''_run''"
| "method_name (Call_fit sess fetches feed_dict) = ''fit''"
| "method_name (Call_predict_feats sess image_features) = ''predict_feats''"
| "method_name (Call_predict sess fetches feed_dict) = ''predict''"
| "method_name (Call_prep_fit data) = ''prep_fit''"
| "method_name (Call_prep_predict dataset cross_eval) = ''prep_predict''"
| "method_name (Call_post_predict predict_fetches cross_eval) = ''post_predict''"
| "method_name (Call_get_training_loss fit_fetches) = ''get_training_loss''"

definition methods :: "string list" where
  "methods =
     [''__init__'', ''initialize_model'', ''save'', ''load'', ''iter_batches'', ''_run'',
      ''fit'', ''predict_feats'', ''predict'', ''prep_fit'', ''prep_predict'',
      ''post_predict'', ''get_training_loss'']"

definition exception :: "error + 'r \<Rightarrow> error option" where
  "exception r = (case r of Inl e \<Rightarrow> Some e | Inr _ \<Rightarrow> None)"

fun invoke ::
  "('s, 't, 't \<rightharpoonup> 'a, 'v, 'sv, 'p) runtime \<Rightarrow> ('ds, 'data) dataset_ops
     \<Rightarrow> ('sv, 't) attalos_model \<Rightarrow> ('s, 't, 'a, 'v, 'p, 'ds, 'data) call \<Rightarrow> error option"
where
  "invoke tf ops self Call_init = exception (init tf self)"
| "invoke tf ops self (Call_initialize_model sess) =
     exception (fst (initialize_model tf self sess))"
| "invoke tf ops self (Call_save sess path) = exception (fst (save tf self sess path))"
| "invoke tf ops self (Call_load sess path) = exception (fst (load tf self sess path))"
| "invoke tf ops self (Call_iter_batches dataset batch_size) =
     snd (fst (consume ops
       (iter_batches (prep_fit self :: 'data \<Rightarrow> error + 't \<times> ('t \<rightharpoonup> 'a)) batch_size)
       dataset))"
| "invoke tf ops self (Call_run sess fetches feed_dict) =
     exception (fst (private_run tf self sess fetches feed_dict))"
| "invoke tf ops self (Call_fit sess fetches feed_dict) =
     exception (fst (fit tf self sess fetches feed_dict))"
| "invoke tf ops self (Call_predict_feats sess image_features) =
     exception (fst (predict_feats tf self sess image_features))"
| "invoke tf ops self (Call_predict sess fetches feed_dict) =
     exception (fst (predict tf self sess fetches feed_dict))"
| "invoke tf ops self (Call_prep_fit data) =
     exception (prep_fit self data :: error + unit)"
| "invoke tf ops self (Call_prep_predict dataset cross_eval) =
     exception (prep_predict self dataset cross_eval :: error + unit)"
| "invoke tf ops self (Call_post_predict predict_fetches cross_eval) =
     exception (post_predict self predict_fetches cross_eval)"
| "invoke tf ops self (Call_get_training_loss fit_fetches) =
     exception (get_training_loss self fit_fetches :: error + unit)"

text \<open>
  The census of the methods. The class looks into none of the objects it is given, so
  here every one of them is its identity, a number. \<open>not_implemented m\<close>: every call of
  \<open>m\<close> ends with \<^verbatim>\<open>NotImplementedError\<close>, whatever the arguments, the instance and the
  collaborators. \<open>has_default m\<close>: some call of \<open>m\<close> returns.
\<close>

type_synonym obj = nat

definition not_implemented :: "string \<Rightarrow> bool" where
  "not_implemented m \<longleftrightarrow>
     (\<forall>(tf :: (obj, obj, obj \<rightharpoonup> obj, obj, obj, obj) runtime)
        (ops :: (obj, obj) dataset_ops) (self :: (obj, obj) attalos_model)
        (c :: (obj, obj, obj, obj, obj, obj, obj) call).
        method_name c = m \<longrightarrow> invoke tf ops self c = Some NotImplementedError)"

definition has_default :: "string \<Rightarrow> bool" where
  "has_default m \<longleftrightarrow>
     (\<exists>(tf :: (obj, obj, obj \<rightharpoonup> obj, obj, obj, obj) runtime)
        (ops :: (obj, obj) dataset_ops) (self :: (obj, obj) attalos_model)
        (c :: (obj, obj, obj, obj, obj, obj, obj) call).
        method_name c = m \<and> invoke tf ops self c = None)"

definition unimplemented_methods :: "string set" where
  "unimplemented_methods = {m \<in> set methods. not_implemented m}"

subsection \<open>Concrete collaborators\<close>

text \<open>
  A dataset of \<open>n\<close> images whose state is a read position and whose batches are the
  positions read, and an empty dataset that never changes; a session that counts its runs and gives back the fetch; a
  \<^verbatim>\<open>prep_fit\<close> as a subclass could write it; an instance of the base class as its
  constructor leaves it, and one whose subclass has assigned \<^verbatim>\<open>model_info\<close>. They
  serve as the inputs of the examples.
\<close>

definition cursor_dataset :: "int \<Rightarrow> (nat, nat list) dataset_ops" where
  "cursor_dataset n =
     \<lparr>num_images = (\<lambda>pos. n),
      get_next_batch = (\<lambda>pos batch_size.
        (Inr [pos ..< pos + nat batch_size], pos + nat batch_size))\<rparr>"

definition counting_runtime :: "(nat, obj, 'd, obj, obj, obj) runtime" where
  "counting_runtime =
     \<lparr>sess_run = (\<lambda>sess fetches feed_dict. (Inr fetches, Suc sess)),
      train_Saver = Inr 7,
      initialize_all_variables = Inr 0,
      saver_save = (\<lambda>sv sess path. (Inr path, sess)),
      saver_restore = (\<lambda>sv sess path. (Inr path, Suc sess))\<rparr>"

definition still_dataset :: "(obj, obj) dataset_ops" where
  "still_dataset = \<lparr>num_images = (\<lambda>d. 0), get_next_batch = (\<lambda>d b. (Inr 0, d))\<rparr>"

definition subclass_prep_fit :: "nat list \<Rightarrow> error + nat \<times> nat list" where
  "subclass_prep_fit data = Inr (length data, data)"

definition base_object :: "(obj, obj) attalos_model" where
  "base_object = \<lparr>saver = Some 7, model_info = None\<rparr>"

definition subclass_object :: "(obj, obj) attalos_model" where
  "subclass_object =
     \<lparr>saver = Some 7, model_info = Some [''input'' \<mapsto> 3, ''prediction'' \<mapsto> 4]\<rparr>"

section \<open>The generator is the loop\<close>

lemma private_run_is_sess_run:
  "private_run tf self sess fetches feed_dict = sess_run tf sess fetches feed_dict"
  by (simp add: private_run_def split: prod.splits sum.splits)

text \<open>A generator that has ended stays ended: it cannot be restarted.\<close>

lemma consume_Finished:
  "gen_frame g = Finished \<Longrightarrow> consume ops g dataset = (([], None), g, dataset)"
  by (simp add: consume.simps [of ops g dataset] gen_next_def)

lemma consume_for_iteration:
  "nat (num_batches - cur_batch_num) = k \<Longrightarrow>
   (case for_iteration ops g cur_batch_num num_batches dataset of
      ((Yield fetches feed_dict, g'), dataset') \<Rightarrow>
        (case consume ops g' dataset' of
           ((pairs, raised), rest) \<Rightarrow> (((fetches, feed_dict) # pairs, raised), rest))
    | ((StopIteration, g'), dataset') \<Rightarrow> (([], None), g', dataset')
    | ((Raise e, g'), dataset') \<Rightarrow> (([], Some e), g', dataset'))
   = (case drain ops (gen_prep_fit g) (gen_batch_size g) k dataset of
        (res, dataset') \<Rightarrow> (res, g\<lparr>gen_frame := Finished\<rparr>, dataset'))"
proof (induction k arbitrary: cur_batch_num g dataset)
  case 0
  then show ?case by (simp add: for_iteration_def)
next
  case (Suc k)
  then have lt: "cur_batch_num < num_batches" and k: "nat (num_batches - (cur_batch_num + 1)) = k"
    by linarith+
  show ?case
  proof (cases "get_next_batch ops dataset (gen_batch_size g)")
    case (Pair r dataset1)
    show ?thesis
    proof (cases r)
      case (Inl e)
      with Pair lt show ?thesis by (simp add: for_iteration_def)
    next
      case (Inr data)
      show ?thesis
      proof (cases "gen_prep_fit g data")
        case (Inl e)
        with Pair Inr lt show ?thesis by (simp add: for_iteration_def)
      next
        case inr: (Inr pair)
        obtain fetches feed_dict where pair: "pair = (fetches, feed_dict)" by (cases pair)
        let ?g1 = "g\<lparr>gen_frame := Suspended cur_batch_num num_batches\<rparr>"
        have "consume ops ?g1 dataset1 =
                (case drain ops (gen_prep_fit g) (gen_batch_size g) k dataset1 of
                   (res, dataset') \<Rightarrow> (res, g\<lparr>gen_frame := Finished\<rparr>, dataset'))"
          using Suc.IH [OF k, of ?g1 dataset1]
          by (simp add: consume.simps [of ops ?g1 dataset1] gen_next_def)
        with Pair Inr inr pair lt show ?thesis
          by (simp add: for_iteration_def split: prod.splits)
      qed
    qed
  qed
qed

lemma consume_iter_batches:
  "consume ops (iter_batches self_prep_fit batch_size) dataset =
     (if batch_size = 0
      then (([], Some ZeroDivisionError),
            (iter_batches self_prep_fit batch_size)\<lparr>gen_frame := Finished\<rparr>, dataset)
      else (case drain ops self_prep_fit batch_size
                   (nat (num_images ops dataset div batch_size)) dataset of
              (res, dataset') \<Rightarrow>
                (res, (iter_batches self_prep_fit batch_size)\<lparr>gen_frame := Finished\<rparr>, dataset')))"
proof (cases "batch_size = 0")
  case True
  then show ?thesis
    by (subst consume.simps) (simp add: gen_next_def iter_batches_def)
next
  case False
  let ?g = "iter_batches self_prep_fit batch_size"
  have "nat (num_images ops dataset div batch_size - 0) = nat (num_images ops dataset div batch_size)"
    by simp
  from consume_for_iteration [OF this, of ops ?g dataset] False show ?thesis
    by (subst consume.simps) (simp add: gen_next_def iter_batches_def)
qed


lemma consume_cases:
  assumes "batch_size \<noteq> 0"
    and "consume ops (iter_batches self_prep_fit batch_size) dataset = ((pairs, raised), g', dataset')"
  shows "drain ops self_prep_fit batch_size (nat (num_images ops dataset div batch_size)) dataset
           = ((pairs, raised), dataset')"
  using assms by (simp add: consume_iter_batches split: prod.splits)

section \<open>What the loop does\<close>

lemma dataset_after_0 [simp]: "dataset_after ops b 0 dataset = dataset"
  by (simp add: dataset_after_def)

lemma dataset_after_Suc:
  "dataset_after ops b (Suc i) dataset = dataset_after ops b i (snd (get_next_batch ops dataset b))"
  unfolding dataset_after_def funpow_Suc_right by simp

lemma retrieved_0: "retrieved ops b 0 dataset = fst (get_next_batch ops dataset b)"
  by (simp add: retrieved_def)

lemma retrieved_Suc:
  "retrieved ops b (Suc i) dataset = retrieved ops b i (snd (get_next_batch ops dataset b))"
  by (simp add: retrieved_def dataset_after_Suc)

lemma drain_length:
  "drain ops pf b k dataset = ((pairs, raised), dataset') \<Longrightarrow>
     length pairs \<le> k \<and> (raised = None \<longleftrightarrow> length pairs = k)"
proof (induction k arbitrary: dataset pairs raised dataset')
  case 0
  then show ?case by auto
next
  case (Suc k)
  show ?case
  proof (cases "get_next_batch ops dataset b")
    case (Pair r d1)
    show ?thesis
    proof (cases r)
      case (Inl e)
      with Pair Suc.prems show ?thesis by auto
    next
      case (Inr data)
      show ?thesis
      proof (cases "pf data")
        case (Inl e)
        with Pair Inr Suc.prems show ?thesis by auto
      next
        case inr: (Inr pair)
        obtain ps r' d2 where rec: "drain ops pf b k d1 = ((ps, r'), d2)"
          by (metis prod.exhaust)
        from Suc.IH [OF rec] Pair Inr inr rec Suc.prems show ?thesis by auto
      qed
    qed
  qed
qed

lemma drain_pairs:
  "drain ops pf b k dataset = ((pairs, raised), dataset') \<Longrightarrow> i < length pairs \<Longrightarrow>
     \<exists>data. retrieved ops b i dataset = Inr data \<and> pf data = Inr (pairs ! i)"
proof (induction k arbitrary: dataset pairs raised dataset' i)
  case 0
  then show ?case by auto
next
  case (Suc k)
  show ?case
  proof (cases "get_next_batch ops dataset b")
    case (Pair r d1)
    show ?thesis
    proof (cases r)
      case (Inl e)
      with Pair Suc.prems show ?thesis by auto
    next
      case (Inr data)
      show ?thesis
      proof (cases "pf data")
        case (Inl e)
        with Pair Inr Suc.prems show ?thesis by auto
      next
        case inr: (Inr pair)
        obtain ps r' d2 where rec: "drain ops pf b k d1 = ((ps, r'), d2)"
          by (metis prod.exhaust)
        with Pair Inr inr Suc.prems have pairs: "pairs = pair # ps" by auto
        show ?thesis
        proof (cases i)
          case 0
          with Pair Inr inr pairs show ?thesis by (simp add: retrieved_0)
        next
          case (Suc j)
          with Suc.prems pairs have "j < length ps" by simp
          from Suc.IH [OF rec this] Suc Pair pairs show ?thesis
            by (simp add: retrieved_Suc)
        qed
      qed
    qed
  qed
qed

lemma drain_dataset:
  "drain ops pf b k dataset = ((pairs, raised), dataset') \<Longrightarrow>
     dataset' = dataset_after ops b (if raised = None then k else Suc (length pairs)) dataset"
proof (induction k arbitrary: dataset pairs raised dataset')
  case 0
  then show ?case by auto
next
  case (Suc k)
  show ?case
  proof (cases "get_next_batch ops dataset b")
    case (Pair r d1)
    show ?thesis
    proof (cases r)
      case (Inl e)
      with Pair Suc.prems show ?thesis by (auto simp: dataset_after_Suc)
    next
      case (Inr data)
      show ?thesis
      proof (cases "pf data")
        case (Inl e)
        with Pair Inr Suc.prems show ?thesis by (auto simp: dataset_after_Suc)
      next
        case inr: (Inr pair)
        obtain ps r' d2 where rec: "drain ops pf b k d1 = ((ps, r'), d2)"
          by (metis prod.exhaust)
        from Suc.IH [OF rec] Pair Inr inr rec Suc.prems show ?thesis
          by (auto simp: dataset_after_Suc)
      qed
    qed
  qed
qed

lemma drain_raised:
  "drain ops pf b k dataset = ((pairs, Some e), dataset') \<Longrightarrow>
     retrieved ops b (length pairs) dataset = Inl e \<or>
     (\<exists>data. retrieved ops b (length pairs) dataset = Inr data \<and> pf data = Inl e)"
proof (induction k arbitrary: dataset pairs dataset')
  case 0
  then show ?case by auto
next
  case (Suc k)
  show ?case
  proof (cases "get_next_batch ops dataset b")
    case (Pair r d1)
    show ?thesis
    proof (cases r)
      case (Inl e')
      with Pair Suc.prems show ?thesis by (auto simp: retrieved_0)
    next
      case (Inr data)
      show ?thesis
      proof (cases "pf data")
        case (Inl e')
        with Pair Inr Suc.prems show ?thesis by (auto simp: retrieved_0)
      next
        case inr: (Inr pair)
        obtain ps r' d2 where rec: "drain ops pf b k d1 = ((ps, r'), d2)"
          by (metis prod.exhaust)
        with Pair Inr inr Suc.prems have "pairs = pair # ps" "r' = Some e" by auto
        with Suc.IH [of d1 ps d2] rec Pair show ?thesis
          by (simp add: retrieved_Suc)
      qed
    qed
  qed
qed

text \<open>The counter changes nothing but itself.\<close>

lemma drain_counting:
  "drain (counting ops) pf b k (dataset, calls) =
     (case drain ops pf b k dataset of
        ((pairs, raised), dataset') \<Rightarrow>
          ((pairs, raised),
           (dataset', calls + (if raised = None then k else Suc (length pairs)))))"
proof (induction k arbitrary: dataset calls)
  case 0
  show ?case by simp
next
  case (Suc k)
  show ?case
  proof (cases "get_next_batch ops dataset b")
    case (Pair r d1)
    show ?thesis
    proof (cases r)
      case (Inl e)
      with Pair show ?thesis by (simp add: counting_def)
    next
      case (Inr data)
      show ?thesis
      proof (cases "pf data")
        case (Inl e)
        with Pair Inr show ?thesis by (simp add: counting_def)
      next
        case inr: (Inr pair)
        obtain ps r' d2 where rec: "drain ops pf b k d1 = ((ps, r'), d2)"
          by (metis prod.exhaust)
        have step: "get_next_batch (counting ops) (dataset, calls) b = (Inr data, (d1, Suc calls))"
          using Pair Inr by (simp add: counting_def)
        from drain_length [OF rec] have "r' = None \<longleftrightarrow> length ps = k" by simp
        with Suc.IH [of d1 "Suc calls"] rec Pair Inr inr step show ?thesis
          by simp
      qed
    qed
  qed
qed

lemma consume_counting:
  assumes "batch_size \<noteq> 0"
    and "consume ops (iter_batches self_prep_fit batch_size) dataset = ((pairs, raised), g', dataset')"
  shows "consume (counting ops) (iter_batches self_prep_fit batch_size) (dataset, 0) =
           ((pairs, raised), g',
            (dataset', if raised = None then nat (num_images ops dataset div batch_size)
                       else Suc (length pairs)))"
proof -
  have n: "num_images (counting ops) (dataset, 0) = num_images ops dataset"
    by (simp add: counting_def)
  from assms have "g' = (iter_batches self_prep_fit batch_size)\<lparr>gen_frame := Finished\<rparr>"
    by (auto simp: consume_iter_batches split: prod.splits)
  with consume_cases [OF assms] assms(1) show ?thesis
    by (simp add: consume_iter_batches [of "counting ops"] n drain_counting)
qed

section \<open>The census of the methods\<close>

lemma not_implemented_hooks:
  "not_implemented ''prep_fit''" "not_implemented ''prep_predict''"
  "not_implemented ''get_training_loss''"
proof -
  show "not_implemented ''prep_fit''"
    unfolding not_implemented_def
  proof (intro allI impI)
    fix tf ops self and c :: "(obj, obj, obj, obj, obj, obj, obj) call"
    assume "method_name c = ''prep_fit''"
    then show "invoke tf ops self c = Some NotImplementedError"
      by (cases c) (simp_all add: prep_fit_def exception_def)
  qed
  show "not_implemented ''prep_predict''"
    unfolding not_implemented_def
  proof (intro allI impI)
    fix tf ops self and c :: "(obj, obj, obj, obj, obj, obj, obj) call"
    assume "method_name c = ''prep_predict''"
    then show "invoke tf ops self c = Some NotImplementedError"
      by (cases c) (simp_all add: prep_predict_def exception_def)
  qed
  show "not_implemented ''get_training_loss''"
    unfolding not_implemented_def
  proof (intro allI impI)
    fix tf ops self and c :: "(obj, obj, obj, obj, obj, obj, obj) call"
    assume "method_name c = ''get_training_loss''"
    then show "invoke tf ops self c = Some NotImplementedError"
      by (cases c) (simp_all add: get_training_loss_def exception_def)
  qed
qed

lemma has_defaultI:
  fixes tf :: "(obj, obj, obj \<rightharpoonup> obj, obj, obj, obj) runtime"
    and ops :: "(obj, obj) dataset_ops"
    and self :: "(obj, obj) attalos_model"
    and c :: "(obj, obj, obj, obj, obj, obj, obj) call"
  shows "method_name c = m \<Longrightarrow> invoke tf ops self c = None \<Longrightarrow> has_default m"
  unfolding has_default_def by blast

lemma has_default_not_unimplemented: "has_default m \<Longrightarrow> \<not> not_implemented m"
  unfolding has_default_def not_implemented_def by force

lemma has_default_init: "has_default ''__init__''"
  by (rule has_defaultI [of Call_init _ counting_runtime still_dataset base_object])
     (simp_all add: init_def counting_runtime_def exception_def)

lemma has_default_initialize_model: "has_default ''initialize_model''"
  by (rule has_defaultI [of "Call_initialize_model 0" _ counting_runtime still_dataset base_object])
     (simp_all add: initialize_model_def counting_runtime_def exception_def)

lemma has_default_save: "has_default ''save''"
  by (rule has_defaultI [of "Call_save 0 0" _ counting_runtime still_dataset base_object])
     (simp_all add: save_def counting_runtime_def base_object_def exception_def)

lemma has_default_load: "has_default ''load''"
  by (rule has_defaultI [of "Call_load 0 0" _ counting_runtime still_dataset base_object])
     (simp_all add: load_def counting_runtime_def base_object_def exception_def)

lemma has_default_iter_batches: "has_default ''iter_batches''"
  by (rule has_defaultI [of "Call_iter_batches 0 1" _ counting_runtime still_dataset base_object])
     (simp_all add: consume_iter_batches still_dataset_def)

lemma has_default_run: "has_default ''_run''"
  by (rule has_defaultI [of "Call_run 0 0 None" _ counting_runtime still_dataset base_object])
     (simp_all add: private_run_def counting_runtime_def exception_def)

lemma has_default_fit: "has_default ''fit''"
  by (rule has_defaultI [of "Call_fit 0 0 None" _ counting_runtime still_dataset base_object])
     (simp_all add: fit_def private_run_def counting_runtime_def exception_def)

lemma has_default_predict: "has_default ''predict''"
  by (rule has_defaultI [of "Call_predict 0 0 None" _ counting_runtime still_dataset base_object])
     (simp_all add: predict_def private_run_def counting_runtime_def exception_def)

lemma has_default_predict_feats: "has_default ''predict_feats''"
  by (rule has_defaultI [of "Call_predict_feats 0 0" _ counting_runtime still_dataset subclass_object])
     (simp_all add: predict_feats_def private_run_def counting_runtime_def
                    subclass_object_def exception_def)

lemma has_default_post_predict: "has_default ''post_predict''"
  by (rule has_defaultI [of "Call_post_predict 0 False" _ counting_runtime still_dataset base_object])
     (simp_all add: post_predict_def exception_def)

lemmas has_default_all =
  has_default_init has_default_initialize_model has_default_save has_default_load
  has_default_iter_batches has_default_run has_default_fit has_default_predict
  has_default_predict_feats has_default_post_predict

lemma methods_split:
  assumes "m \<in> set methods"
  shows "m \<in> {''prep_fit'', ''prep_predict'', ''get_training_loss''} \<or> has_default m"
proof -
  from assms have "m = ''__init__'' \<or> m = ''initialize_model'' \<or> m = ''save'' \<or> m = ''load'' \<or>
     m = ''iter_batches'' \<or> m = ''_run'' \<or> m = ''fit'' \<or> m = ''predict_feats'' \<or>
     m = ''predict'' \<or> m = ''prep_fit'' \<or> m = ''prep_predict'' \<or> m = ''post_predict'' \<or>
     m = ''get_training_loss''"
    by (simp add: methods_def)
  then show ?thesis
    by (elim disjE) (simp_all only: has_default_all insert_iff simp_thms)
qed

lemma hooks_in_methods:
  "''prep_fit'' \<in> set methods" "''prep_predict'' \<in> set methods"
  "''get_training_loss'' \<in> set methods"
  by (simp_all add: methods_def)

lemma unimplemented_methods_eq:
  "unimplemented_methods = {''prep_fit'', ''prep_predict'', ''get_training_loss''}"
proof (rule set_eqI)
  fix m
  show "m \<in> unimplemented_methods \<longleftrightarrow> m \<in> {''prep_fit'', ''prep_predict'', ''get_training_loss''}"
  proof
    assume "m \<in> unimplemented_methods"
    then have m: "m \<in> set methods" and n: "not_implemented m"
      by (simp_all add: unimplemented_methods_def)
    from methods_split [OF m] has_default_not_unimplemented [of m] n
    show "m \<in> {''prep_fit'', ''prep_predict'', ''get_training_loss''}" by blast
  next
    assume "m \<in> {''prep_fit'', ''prep_predict'', ''get_training_loss''}"
    then have "m = ''prep_fit'' \<or> m = ''prep_predict'' \<or> m = ''get_training_loss''"
      by (simp only: insert_iff empty_iff simp_thms)
    then show "m \<in> unimplemented_methods"
      unfolding unimplemented_methods_def
      using not_implemented_hooks hooks_in_methods by (elim disjE) (simp_all only: mem_Collect_eq simp_thms)
  qed
qed

lemma card_unimplemented_methods: "card unimplemented_methods = 3"
  by (simp add: unimplemented_methods_eq)


section \<open>The claims\<close>

subsection \<open>The batches of \<open>iter_batches\<close>\<close>

text \<open>
  Claim C1, as stated, fails. It promises \<open>floor(N/B)\<close> pairs for every dataset and
  every positive batch size, but the pairs come from \<^verbatim>\<open>self.prep_fit\<close>, and an
  exception of it (or of \<open>get_next_batch\<close>) is not caught: it ends the generator. On
  an instance of the base class itself, a dataset of one image and \<open>batch_size = 1\<close>,
  where \<open>floor(N/B) = 1\<close>, consuming the generator yields no pair and raises
  \<^verbatim>\<open>NotImplementedError\<close>.
\<close>

theorem iter_batches_count_counterexample:
  "nat (num_images (cursor_dataset 1) 0 div 1) = 1 \<and>
   fst (consume (cursor_dataset 1)
          (iter_batches (prep_fit base_object :: nat list \<Rightarrow> error + nat \<times> nat list) 1) 0)
     = ([], Some NotImplementedError)"
  by (simp add: consume_iter_batches cursor_dataset_def prep_fit_def)

text \<open>
  Claim C1, amended. For every dataset of \<open>N \<ge> 0\<close> images and every batch size
  \<open>B > 0\<close>, consuming the generator of \<open>iter_batches\<close> yields at most \<open>floor(N/B)\<close>
  pairs, and exactly \<open>floor(N/B)\<close> when, and only when, no exception ends it, that is
  when every call of \<open>get_next_batch\<close> and of \<open>prep_fit\<close> it makes returns. Then the
  \<open>N - floor(N/B) * B\<close> images left over are fewer than \<open>B\<close> and give no batch.
\<close>

theorem iter_batches_count:
  assumes "0 \<le> num_images ops dataset" and "0 < batch_size"
    and "consume ops (iter_batches self_prep_fit batch_size) dataset
           = ((pairs, raised), g', dataset')"
  shows "length pairs \<le> nat (num_images ops dataset div batch_size) \<and>
         (raised = None \<longleftrightarrow> length pairs = nat (num_images ops dataset div batch_size)) \<and>
         (raised = None \<longrightarrow>
            0 \<le> num_images ops dataset - int (length pairs) * batch_size \<and>
            num_images ops dataset - int (length pairs) * batch_size < batch_size)"
proof -
  let ?n = "num_images ops dataset"
  from assms(2,3) have d: "drain ops self_prep_fit batch_size (nat (?n div batch_size)) dataset
      = ((pairs, raised), dataset')"
    by (intro consume_cases) auto
  note len = drain_length [OF d]
  have "0 \<le> ?n div batch_size"
    using assms(1,2) by (simp add: pos_imp_zdiv_nonneg_iff)
  then have k: "int (nat (?n div batch_size)) = ?n div batch_size" by simp
  have rem: "?n - (?n div batch_size) * batch_size = ?n mod batch_size"
    by (simp add: minus_div_mult_eq_mod)
  have "0 \<le> ?n mod batch_size" "?n mod batch_size < batch_size"
    using assms(2) by simp_all
  with len k rem show ?thesis by auto
qed

text \<open>
  Seven images in batches of three, with a \<open>prep_fit\<close> that returns: two pairs, and the
  seventh image is in neither.
\<close>

theorem iter_batches_count_witness:
  "0 \<le> num_images (cursor_dataset 7) 0 \<and> (0::int) < 3 \<and>
   consume (cursor_dataset 7) (iter_batches subclass_prep_fit 3) 0 =
     (([(3, [0, 1, 2]), (3, [3, 4, 5])], None),
      (iter_batches subclass_prep_fit 3)\<lparr>gen_frame := Finished\<rparr>, 6) \<and>
   length [(3::nat, [0::nat, 1, 2]), (3, [3, 4, 5])] = nat (num_images (cursor_dataset 7) 0 div 3)"
proof -
  have c: "consume (cursor_dataset 7) (iter_batches subclass_prep_fit 3) 0 =
     (([(3, [0, 1, 2]), (3, [3, 4, 5])], None),
      (iter_batches subclass_prep_fit 3)\<lparr>gen_frame := Finished\<rparr>, 6)"
    by (simp add: consume_iter_batches cursor_dataset_def subclass_prep_fit_def
                  numeral_2_eq_2 upt_rec)
  have n: "0 \<le> num_images (cursor_dataset 7) 0" by (simp add: cursor_dataset_def)
  from iter_batches_count [OF n _ c] c n show ?thesis by simp
qed

subsection \<open>The methods that raise\<close>

text \<open>
  Claim C2, as stated, fails: the methods of the base class that raise
  \<^verbatim>\<open>NotImplementedError\<close> on every call are not two.
\<close>

theorem base_methods_census_counterexample: "card unimplemented_methods \<noteq> 2"
  by (simp add: card_unimplemented_methods)

text \<open>
  Claim C2, amended. Of the thirteen methods of the base class exactly three,
  \<open>prep_fit\<close>, \<open>prep_predict\<close> and \<open>get_training_loss\<close>, raise
  \<^verbatim>\<open>NotImplementedError\<close> on every call; each of the other ten has a body that returns
  on some call.
\<close>

theorem base_methods_census:
  "unimplemented_methods = {''prep_fit'', ''prep_predict'', ''get_training_loss''} \<and>
   card unimplemented_methods = 3 \<and>
   length methods = 13 \<and> distinct methods \<and>
   (\<forall>m \<in> set methods - unimplemented_methods. has_default m)"
proof -
  have d: "has_default m" if "m \<in> set methods - unimplemented_methods" for m
  proof -
    from that have "m \<in> set methods"
      and "m \<notin> {''prep_fit'', ''prep_predict'', ''get_training_loss''}"
      by (simp_all add: unimplemented_methods_eq)
    with methods_split [of m] show ?thesis by blast
  qed
  have l: "length methods = 13" "distinct methods"
    by (simp_all add: methods_def)
  from d l unimplemented_methods_eq card_unimplemented_methods show ?thesis by blast
qed

theorem base_methods_census_witness:
  "invoke counting_runtime still_dataset base_object
     (Call_prep_fit 5 :: (obj, obj, obj, obj, obj, obj, obj) call)
     = Some NotImplementedError \<and>
   ''fit'' \<in> set methods - unimplemented_methods \<and> has_default ''fit''"
proof -
  have eq: "unimplemented_methods = {''prep_fit'', ''prep_predict'', ''get_training_loss''}"
    using base_methods_census by (rule conjunct1)
  have "''prep_fit'' \<in> unimplemented_methods"
    by (subst eq) simp
  then have "not_implemented ''prep_fit''"
    by (simp add: unimplemented_methods_def)
  then have "method_name (Call_prep_fit 5 :: (obj, obj, obj, obj, obj, obj, obj) call)
               = ''prep_fit'' \<longrightarrow>
             invoke counting_runtime still_dataset base_object
               (Call_prep_fit 5 :: (obj, obj, obj, obj, obj, obj, obj) call)
               = Some NotImplementedError"
    unfolding not_implemented_def by blast
  then have 1: "invoke counting_runtime still_dataset base_object
                  (Call_prep_fit 5 :: (obj, obj, obj, obj, obj, obj, obj) call)
                  = Some NotImplementedError"
    by simp
  have "''fit'' \<in> set methods" by (simp add: methods_def)
  moreover have "''fit'' \<notin> {''prep_fit'', ''prep_predict'', ''get_training_loss''}"
    by simp
  ultimately have "''fit'' \<in> set methods - unimplemented_methods \<and> has_default ''fit''"
    using base_methods_census by auto
  with 1 show ?thesis by simp
qed

subsection \<open>The hooks and the forwarders\<close>

text \<open>
  Claim C3. Called on the base class, each of \<open>prep_fit\<close>, \<open>prep_predict\<close> and
  \<open>get_training_loss\<close> raises \<^verbatim>\<open>NotImplementedError\<close>, whatever the instance and
  the arguments are.
\<close>

theorem hooks_not_implemented:
  "prep_fit self data = Inl NotImplementedError \<and>
   prep_predict self dataset cross_eval = Inl NotImplementedError \<and>
   get_training_loss self fit_fetches = Inl NotImplementedError"
  by (simp add: prep_fit_def prep_predict_def get_training_loss_def)

text \<open>
  Claim C4. The default \<open>post_predict\<close> is the identity: whatever \<open>predict_fetches\<close>
  is and whichever value \<open>cross_eval\<close> has, it returns \<open>predict_fetches\<close> itself,
  and it never raises.
\<close>

theorem post_predict_identity:
  "post_predict self predict_fetches True = Inr predict_fetches \<and>
   post_predict self predict_fetches False = Inr predict_fetches"
  by (simp add: post_predict_def)

text \<open>
  Claim C5. \<open>fit\<close> and \<open>predict\<close> forward: for every session, fetches and feed
  dictionary each gives exactly what \<^verbatim>\<open>sess.run(fetches, feed_dict=feed_dict)\<close> gives,
  the value or the exception, and leaves the session as that run leaves it. So the two
  are equal to each other and to the run.
\<close>

theorem fit_predict_forward:
  "fit tf self sess fetches feed_dict = sess_run tf sess fetches feed_dict \<and>
   predict tf self sess fetches feed_dict = sess_run tf sess fetches feed_dict \<and>
   fit tf self sess fetches feed_dict = predict tf self sess fetches feed_dict"
  by (simp add: fit_def predict_def private_run_is_sess_run)

text \<open>
  Claim C6. When the instance has a \<open>model_info\<close> dictionary with the keys
  \<^verbatim>\<open>'input'\<close> and \<^verbatim>\<open>'prediction'\<close>, \<open>predict_feats\<close> raises neither an attribute
  nor a key error of its own: it gives exactly what
  \<^verbatim>\<open>sess.run(model_info['prediction'], feed_dict={model_info['input']: image_features})\<close>
  gives.
\<close>

theorem predict_feats_forward:
  assumes "model_info self = Some info"
    and "info ''input'' = Some input"
    and "info ''prediction'' = Some prediction"
  shows "predict_feats tf self sess image_features =
           sess_run tf sess prediction (Some [input \<mapsto> image_features])"
  using assms by (simp add: predict_feats_def private_run_is_sess_run)

theorem predict_feats_forward_witness:
  "model_info subclass_object = Some [''input'' \<mapsto> 3, ''prediction'' \<mapsto> 4] \<and>
   [''input'' \<mapsto> 3, ''prediction'' \<mapsto> 4] ''input'' = Some (3::nat) \<and>
   [''input'' \<mapsto> 3, ''prediction'' \<mapsto> 4] ''prediction'' = Some (4::nat) \<and>
   predict_feats counting_runtime subclass_object 0 (9::nat) = (Inr 4, 1)"
  using predict_feats_forward [of subclass_object "[''input'' \<mapsto> 3, ''prediction'' \<mapsto> 4]" 3 4
          counting_runtime 0 9]
  by (simp add: subclass_object_def counting_runtime_def)


subsection \<open>The order of the batches\<close>

text \<open>
  Claim C7, as stated, fails for the reason C1 does. On an instance of the base class,
  a dataset of two images and \<open>batch_size = 1\<close>, where \<open>floor(N/B) = 2\<close>:
  \<open>get_next_batch\<close> is called once, not twice (the counter ends at 1, the dataset at
  position 1), \<open>prep_fit\<close> raises on the first batch and no pair is yielded.
\<close>

theorem iter_batches_order_counterexample:
  "nat (num_images (cursor_dataset 2) 0 div 1) = 2 \<and>
   consume (counting (cursor_dataset 2))
     (iter_batches (prep_fit base_object :: nat list \<Rightarrow> error + nat \<times> nat list) 1) (0, 0)
     = (([], Some NotImplementedError),
        (iter_batches (prep_fit base_object) 1)\<lparr>gen_frame := Finished\<rparr>, (1, 1))"
  by (simp add: consume_iter_batches cursor_dataset_def counting_def prep_fit_def
                numeral_2_eq_2)

text \<open>
  Claim C7, amended. For every dataset of \<open>N\<close> images and every batch size \<open>B > 0\<close>:
  every pair \<open>iter_batches\<close> yields is in order, the \<open>i\<close>-th pair being what
  \<open>prep_fit\<close> returns on the batch that the \<open>i\<close>-th call of \<open>get_next_batch(B)\<close>
  returns; when each of the first \<open>floor(N/B)\<close> calls of \<open>get_next_batch\<close> returns a
  batch and \<open>prep_fit\<close> returns a pair on it, no exception ends the generator; and when
  none does, it yields \<open>floor(N/B)\<close> pairs, has called \<open>get_next_batch\<close> exactly
  \<open>floor(N/B)\<close> times and leaves the dataset as these calls leave it. The calls are
  counted by running the same generator on the dataset with a counter, which yields the
  same pairs.
\<close>

theorem iter_batches_order:
  assumes "0 < batch_size"
    and "consume ops (iter_batches self_prep_fit batch_size) dataset
           = ((pairs, raised), g', dataset')"
    and "consume (counting ops) (iter_batches self_prep_fit batch_size) (dataset, 0)
           = (yielded, g'', dataset'', calls)"
  shows "yielded = (pairs, raised) \<and> dataset'' = dataset' \<and>
         (\<forall>i < length pairs. \<exists>data.
            retrieved ops batch_size i dataset = Inr data \<and> self_prep_fit data = Inr (pairs ! i)) \<and>
         (raised = None \<longrightarrow>
            length pairs = nat (num_images ops dataset div batch_size) \<and>
            calls = nat (num_images ops dataset div batch_size) \<and>
            dataset' = dataset_after ops batch_size
                         (nat (num_images ops dataset div batch_size)) dataset) \<and>
         ((\<forall>i < nat (num_images ops dataset div batch_size). \<exists>data pair.
              retrieved ops batch_size i dataset = Inr data \<and> self_prep_fit data = Inr pair)
            \<longrightarrow> raised = None)"
proof -
  let ?k = "nat (num_images ops dataset div batch_size)"
  from assms(1) have nz: "batch_size \<noteq> 0" by simp
  from nz assms(2)
  have d: "drain ops self_prep_fit batch_size ?k dataset = ((pairs, raised), dataset')"
    by (rule consume_cases)
  note len = drain_length [OF d]
  have 0: "yielded = (pairs, raised) \<and> dataset'' = dataset' \<and>
           (raised = None \<longrightarrow> calls = ?k)"
    using consume_counting [OF nz assms(2)] assms(3) by simp
  have 1: "\<forall>i < length pairs. \<exists>data.
            retrieved ops batch_size i dataset = Inr data \<and> self_prep_fit data = Inr (pairs ! i)"
    using drain_pairs [OF d] by blast
  have 2: "raised = None \<longrightarrow> length pairs = ?k \<and> dataset' = dataset_after ops batch_size ?k dataset"
    using len drain_dataset [OF d] by auto
  have 3: "raised = None"
    if ok: "\<forall>i < ?k. \<exists>data pair.
              retrieved ops batch_size i dataset = Inr data \<and> self_prep_fit data = Inr pair"
  proof (rule ccontr)
    assume "raised \<noteq> None"
    then obtain e where e: "raised = Some e" by auto
    with len have lt: "length pairs < ?k" by auto
    from d e have "drain ops self_prep_fit batch_size ?k dataset = ((pairs, Some e), dataset')"
      by simp
    from drain_raised [OF this] ok lt show False by fastforce
  qed
  from 0 1 2 3 show ?thesis by blast
qed

text \<open>
  Seven images in batches of three: two calls of \<open>get_next_batch\<close>, which return the
  images 0 to 2 and 3 to 5, and the two pairs are \<open>prep_fit\<close> of these, in this order.
\<close>

theorem iter_batches_order_witness:
  "(0::int) < 3 \<and>
   consume (cursor_dataset 7) (iter_batches subclass_prep_fit 3) 0 =
     (([(3, [0, 1, 2]), (3, [3, 4, 5])], None),
      (iter_batches subclass_prep_fit 3)\<lparr>gen_frame := Finished\<rparr>, 6) \<and>
   consume (counting (cursor_dataset 7)) (iter_batches subclass_prep_fit 3) (0, 0) =
     (([(3, [0, 1, 2]), (3, [3, 4, 5])], None),
      (iter_batches subclass_prep_fit 3)\<lparr>gen_frame := Finished\<rparr>, 6, 2) \<and>
   retrieved (cursor_dataset 7) 3 0 0 = Inr [0, 1, 2] \<and>
   subclass_prep_fit [0, 1, 2] = Inr ([(3, [0, 1, 2]), (3, [3, 4, 5])] ! 0) \<and>
   retrieved (cursor_dataset 7) 3 1 0 = Inr [3, 4, 5] \<and>
   subclass_prep_fit [3, 4, 5] = Inr ([(3, [0, 1, 2]), (3, [3, 4, 5])] ! 1) \<and>
   (2::nat) = nat (num_images (cursor_dataset 7) 0 div 3) \<and>
   dataset_after (cursor_dataset 7) 3 (nat (num_images (cursor_dataset 7) 0 div 3)) 0 = 6"
proof -
  have c: "consume (cursor_dataset 7) (iter_batches subclass_prep_fit 3) 0 =
     (([(3, [0, 1, 2]), (3, [3, 4, 5])], None),
      (iter_batches subclass_prep_fit 3)\<lparr>gen_frame := Finished\<rparr>, 6)"
    by (simp add: consume_iter_batches cursor_dataset_def subclass_prep_fit_def
                  numeral_2_eq_2 upt_rec)
  have c': "consume (counting (cursor_dataset 7)) (iter_batches subclass_prep_fit 3) (0, 0) =
     (([(3, [0, 1, 2]), (3, [3, 4, 5])], None),
      (iter_batches subclass_prep_fit 3)\<lparr>gen_frame := Finished\<rparr>, 6, 2)"
    by (simp add: consume_iter_batches cursor_dataset_def counting_def subclass_prep_fit_def
                  numeral_2_eq_2 upt_rec)
  have r: "retrieved (cursor_dataset 7) 3 0 0 = Inr [0, 1, 2]"
          "retrieved (cursor_dataset 7) 3 1 0 = Inr [3, 4, 5]"
    by (simp_all add: retrieved_def dataset_after_def cursor_dataset_def upt_rec)
  have n: "nat (num_images (cursor_dataset 7) 0 div 3) = 2"
    by (simp add: cursor_dataset_def)
  have "(0::int) < 3" by simp
  from iter_batches_order [OF this c c'] c c' r show ?thesis
    unfolding n by (simp add: subclass_prep_fit_def)
qed

subsection \<open>Batch sizes that are not positive\<close>

text \<open>
  Claim C8. With \<open>batch_size = -1\<close> and a dataset of \<open>N > 0\<close> images the bound of the
  loop is \<open>N div (-1) = -N\<close>, which is negative: the generator ends at once, yields no
  pair, calls neither \<open>get_next_batch\<close> nor \<open>prep_fit\<close> and raises nothing. It does
  not yield the whole dataset as one batch.
\<close>

theorem iter_batches_minus_one:
  assumes "0 < num_images ops dataset"
  shows "num_images ops dataset div (- 1) < 0 \<and>
         consume ops (iter_batches self_prep_fit (- 1)) dataset =
           (([], None), (iter_batches self_prep_fit (- 1))\<lparr>gen_frame := Finished\<rparr>, dataset)"
  using assms by (simp add: consume_iter_batches)

theorem iter_batches_minus_one_witness:
  "0 < num_images (cursor_dataset 5) 0 \<and>
   fst (consume (cursor_dataset 5) (iter_batches subclass_prep_fit (- 1)) 0) = ([], None)"
  using iter_batches_minus_one [of "cursor_dataset 5" 0 subclass_prep_fit]
  by (simp add: cursor_dataset_def)

text \<open>
  Claim C9. Nothing guards the division: with \<open>batch_size = 0\<close> the call of
  \<open>iter_batches\<close> itself returns a generator, and the first \<^verbatim>\<open>next\<close> of it raises
  \<^verbatim>\<open>ZeroDivisionError\<close>, for every dataset, before any call of \<open>get_next_batch\<close>
  and before any pair; consuming it gives no pair and that exception.
\<close>

theorem iter_batches_zero:
  "gen_next ops (iter_batches self_prep_fit 0) dataset =
     ((Raise ZeroDivisionError, (iter_batches self_prep_fit 0)\<lparr>gen_frame := Finished\<rparr>), dataset) \<and>
   consume ops (iter_batches self_prep_fit 0) dataset =
     (([], Some ZeroDivisionError), (iter_batches self_prep_fit 0)\<lparr>gen_frame := Finished\<rparr>, dataset)"
  by (simp add: consume_iter_batches) (simp add: gen_next_def iter_batches_def)

subsection \<open>An instance without its dictionary\<close>

text \<open>
  Claim C10. The constructor of the base class assigns \<open>saver\<close> and nothing else, so it
  leaves \<open>model_info\<close> as it found it; and on an instance without \<open>model_info\<close>,
  \<open>predict_feats\<close> raises \<^verbatim>\<open>AttributeError\<close> for every session and every matrix of
  image features, without running the session.
\<close>

theorem predict_feats_without_model_info:
  "(init tf self0 = Inr self \<longrightarrow>
      (\<exists>sv. train_Saver tf = Inr sv \<and> self = self0\<lparr>saver := Some sv\<rparr>) \<and>
      model_info self = model_info self0) \<and>
   (model_info self' = None \<longrightarrow>
      predict_feats tf' self' sess image_features =
        (Inl (AttributeError ''model_info''), sess))"
  by (auto simp: init_def predict_feats_def split: sum.splits)

theorem predict_feats_without_model_info_witness:
  "init (counting_runtime :: (nat, obj, obj \<rightharpoonup> nat, obj, obj, obj) runtime) new_object
     = Inr base_object \<and>
   model_info base_object = None \<and>
   predict_feats counting_runtime base_object 0 (9::nat)
     = (Inl (AttributeError ''model_info''), 0)"
  using predict_feats_without_model_info
          [where tf = "counting_runtime :: (nat, obj, obj \<rightharpoonup> nat, obj, obj, obj) runtime"
             and ?self0.0 = new_object and self = base_object
             and tf' = counting_runtime and self' = base_object
             and sess = 0 and image_features = 9]
  by (simp add: init_def counting_runtime_def new_object_def base_object_def)


end
